theory Spec2Isabelle
  imports Complex_Main "HOL-Library.Word" "HOL-Library.Multiset"
begin

section \<open>The UnrealWriter editor plugin\<close>

text \<open>
  The plugin is a set of static functions that forward to subsystems of the host editor.
  A function of the plugin is embedded as a HOL function that returns what the C++
  function returns together with the host calls it makes, in the order it makes them.
  What the host answers (a dialog response, the asset registry's records, the reimport
  manager's verdict) is an argument of the embedded function, so a theorem holds for
  every answer of the host.
\<close>

subsection \<open>Host types\<close>

type_synonym int32 = "32 word"

text \<open>\<open>INDEX_NONE\<close> is the engine's constant for "no index".\<close>

definition INDEX_NONE :: int32 where
  "INDEX_NONE = - 1"

text \<open>
  Reflection. A class is known by its name; an object is either the class default
  object of its class (one per class, owned by the class) or an instance created later.
\<close>

datatype UClass = UClass string

datatype UObject = ClassDefaultObject UClass | Instance UClass nat

fun GetClass :: "UObject \<Rightarrow> UClass" where
  "GetClass (ClassDefaultObject c) = c"
| "GetClass (Instance c n) = c"

definition GetDefaultObject :: "UClass \<Rightarrow> UObject" where
  "GetDefaultObject c = ClassDefaultObject c"

text \<open>A pointer is \<open>None\<close> when it is \<open>nullptr\<close>.\<close>

type_synonym UObjectPtr = "UObject option"

datatype FReimportHandler = FReimportHandler string

datatype FName = FName string

datatype FAssetData = FAssetData (PackageName: FName) (AssetName: FName)

text \<open>
  The asset registry's filter. The plugin sets \<open>PackageNames\<close> only; every other field
  of the engine's filter keeps its default and lives in the record's extension.
\<close>

record FARFilter =
  PackageNames :: "FName list"

datatype EAppMsgType = MsgOk | YesNo | OkCancel | YesNoCancel | CancelRetryContinue
  | YesNoYesAllNoAll | YesNoYesAllNoAllCancel | YesNoYesAll

datatype EAppReturnType = No | Yes | YesAll | NoAll | Cancel | Ok | Retry | Continue

subsection \<open>Time\<close>

record FFrameNumber =
  Value :: int32

text \<open>
  Modelled from the spec: the engine's frame time, frame rate and range types
  (\<open>FFrameTime\<close>, \<open>FFrameRate\<close>, \<open>FQualifiedFrameTime\<close>, \<open>TRange\<close>) are declared in
  engine headers. A frame time is an integer frame-number component and a sub-frame
  remainder in \<open>[0, 1)\<close>; a tick resolution is a number of ticks per second; a playback
  range is known by its discrete bounds, the lower one included, the upper one not.
\<close>

record FFrameTime =
  FrameNumber :: FFrameNumber
  SubFrame :: rat

type_synonym FFrameRate = rat

record FQualifiedFrameTime =
  Time :: FFrameTime
  Rate :: FFrameRate

record TRange =
  LowerBoundValue :: FFrameNumber
  UpperBoundValue :: FFrameNumber

record UMovieScene =
  GetTickResolution :: FFrameRate
  GetPlaybackRange :: TRange

record UMovieSceneSequence =
  SequenceObjectName :: string
  GetMovieScene :: UMovieScene

record UMovieSceneSubTrack =
  TrackObjectName :: string
  GetTypedOuter :: UMovieScene

text \<open>The implicit conversions \<open>FFrameNumber(int32)\<close> and \<open>FFrameTime(int32)\<close>.\<close>

definition FFrameNumber_of :: "int32 \<Rightarrow> FFrameNumber" where
  "FFrameNumber_of n = \<lparr>Value = n\<rparr>"

definition FFrameTime_of :: "int32 \<Rightarrow> FFrameTime" where
  "FFrameTime_of n = \<lparr>FrameNumber = FFrameNumber_of n, SubFrame = 0\<rparr>"

text \<open>
  Modelled from the spec: \<open>DiscreteSize\<close>, the engine's length of a range of frame
  numbers ("the child's playback-range length in its own native tick resolution"), as a
  32-bit count of ticks.
\<close>

definition DiscreteSize :: "TRange \<Rightarrow> int32" where
  "DiscreteSize r = Value (UpperBoundValue r) - Value (LowerBoundValue r)"

text \<open>The signed 32-bit numbers.\<close>

definition InInt32 :: "int \<Rightarrow> bool" where
  "InInt32 k \<longleftrightarrow> - (2 ^ 31) \<le> k \<and> k < 2 ^ 31"

text \<open>
  Modelled from the spec: \<open>FQualifiedFrameTime::ConvertTo\<close>, the engine's conversion of
  a time between two tick resolutions ("converts that duration into the parent track's
  tick resolution using a rate-conversion (ratio of resolutions)"). The time is scaled by
  the ratio of the resolutions; the result's frame number is the integer part of the
  scaled time and its sub-frame is the remainder. The frame number is a 32-bit number;
  the spec does not say what the engine stores when the integer part is not one, so that
  is the parameter \<open>Unrepresentable\<close>, and a statement about \<open>ConvertTo\<close> holds for
  whatever the engine stores there. The spec gives the ratio for a source resolution that
  is not zero; for a source resolution of zero the ratio here is HOL's quotient by zero, 0.
\<close>

definition FrameTime_AsDecimal :: "FFrameTime \<Rightarrow> rat" where
  "FrameTime_AsDecimal t = of_int (sint (Value (FrameNumber t))) + SubFrame t"

definition ConvertTo ::
  "(int \<Rightarrow> int32) \<Rightarrow> FQualifiedFrameTime \<Rightarrow> FFrameRate \<Rightarrow> FFrameTime" where
  "ConvertTo Unrepresentable q DesiredRate =
     (let t = FrameTime_AsDecimal (Time q) * DesiredRate / Rate q;
          n = \<lfloor>t\<rfloor>
      in \<lparr>FrameNumber = FFrameNumber_of (if InInt32 n then word_of_int n else Unrepresentable n),
          SubFrame = t - of_int n\<rparr>)"

subsection \<open>Host calls\<close>

text \<open>
  One constructor per host entry point the plugin calls that acts on the editor, with
  the arguments in the order of the C++ call.
\<close>

datatype HostCall =
    FMessageDialog_Open EAppMsgType string string
  | AddSequenceOnRow UMovieSceneSubTrack UMovieSceneSequence FFrameNumber int32 int32
  | IDesktopPlatform_OpenFileDialog "nat option" string string string string "32 word"
      "string list"
  | LoadModuleChecked string
  | IAssetRegistry_GetAssets FARFilter "FAssetData list"
  | ContentBrowser_SyncBrowserToAssets "FAssetData list"
  | ShotBrowserUtility_CreateSequence UObject string "string list" "string \<rightharpoonup> string"
  | FReimportManager_CanReimport UObjectPtr
  | FReimportManager_UpdateReimportPath UObjectPtr string int32
  | FReimportManager_Reimport UObjectPtr bool bool string "FReimportHandler option" int32
      bool bool

datatype error = NullPointerDereference

subsection \<open>ShotBrowserUtility.cpp\<close>

definition UShotBrowserUtility_StaticClass :: UClass where
  "UShotBrowserUtility_StaticClass = UClass ''ShotBrowserUtility''"

text \<open>
  \<open>Cast<UShotBrowserUtility>\<close>, the engine's checked downcast: the object itself when its
  class is \<open>UShotBrowserUtility\<close> or one of the classes derived from it, \<open>nullptr\<close>
  otherwise. \<open>DerivedClasses\<close> is what \<open>GetDerivedClasses\<close> enumerates for
  \<open>UShotBrowserUtility\<close>.
\<close>

definition Cast_UShotBrowserUtility :: "UClass list \<Rightarrow> UObject \<Rightarrow> UObjectPtr" where
  "Cast_UShotBrowserUtility DerivedClasses obj =
     (if GetClass obj = UShotBrowserUtility_StaticClass \<or> GetClass obj \<in> set DerivedClasses
      then Some obj else None)"

text \<open>
  \<open>UShotBrowserUtility::Get\<close>. The state of the host it reads is the list of loaded
  classes derived from \<open>UShotBrowserUtility\<close>, in the order \<open>GetDerivedClasses\<close> fills the
  array. \<open>NumClasses\<close> is the array's \<open>int32\<close> size; an engine array never holds more
  than \<open>2^31 - 1\<close> elements.
\<close>

definition Get :: "UClass list \<Rightarrow> UObjectPtr" where
  "Get DerivedClasses =
     (let ShotBrowserUtilityClasses = DerivedClasses;
          NumClasses = int (length ShotBrowserUtilityClasses)
      in if NumClasses > 0
         then Cast_UShotBrowserUtility DerivedClasses
                (GetDefaultObject (ShotBrowserUtilityClasses ! nat (NumClasses - 1)))
         else None)"

subsection \<open>EditorReimportManagerPythonAPIBPLibrary.cpp\<close>

text \<open>
  Each function takes the reimport manager's answer as its first argument where the
  manager returns one.
\<close>

definition CanReimport :: "(UObjectPtr \<Rightarrow> bool) \<Rightarrow> UObjectPtr \<Rightarrow> bool \<times> HostCall list" where
  "CanReimport Manager_CanReimport Obj =
     (Manager_CanReimport Obj, [FReimportManager_CanReimport Obj])"

definition UpdateReimportPath :: "UObjectPtr \<Rightarrow> string \<Rightarrow> int32 \<Rightarrow> HostCall list" where
  "UpdateReimportPath Obj Filename SourceFileIndex =
     [FReimportManager_UpdateReimportPath Obj Filename SourceFileIndex]"

type_synonym ReimportFn =
  "UObjectPtr \<Rightarrow> bool \<Rightarrow> bool \<Rightarrow> string \<Rightarrow> FReimportHandler option \<Rightarrow> int32 \<Rightarrow> bool \<Rightarrow> bool
     \<Rightarrow> bool"

definition Reimport :: "ReimportFn \<Rightarrow> UObjectPtr \<Rightarrow> int32 \<Rightarrow> bool \<times> HostCall list" where
  "Reimport Manager_Reimport Obj SourceFileIndex =
     (Manager_Reimport Obj False True '''' None SourceFileIndex False True,
      [FReimportManager_Reimport Obj False True '''' None SourceFileIndex False True])"

subsection \<open>UnrealWriterPythonAPI.cpp\<close>

text \<open>
  \<open>DisplaySequencerActionsDialog\<close>. \<open>Respond\<close> is what the modal prompt returns for the
  message type, message and title it is opened with. The message is the fixed pattern
  with its placeholder \<open>{0}\<close>, the pattern's last token, replaced by the sequence name.
\<close>

definition DisplaySequencerActionsDialog ::
  "(EAppMsgType \<Rightarrow> string \<Rightarrow> string \<Rightarrow> EAppReturnType) \<Rightarrow> string \<Rightarrow> bool \<times> HostCall list" where
  "DisplaySequencerActionsDialog Respond SequenceName =
     (let MessageTitle = ''UnrealWriter Sequence Assembly'';
          Message = ''The following actions will be executed to assemble the Unreal sequence: ''
                      @ SequenceName;
          Response = Respond OkCancel Message MessageTitle
      in (Response = Ok, [FMessageDialog_Open OkCancel Message MessageTitle]))"

text \<open>
  \<open>AddSequenceToSubtrack\<close>. Both branches of the engine-version switch call the same
  \<open>DiscreteSize\<close>, in two namespaces. \<open>Convert\<close> is the engine's
  \<open>FQualifiedFrameTime::ConvertTo\<close>.
\<close>

definition AddSequenceToSubtrack ::
  "(FQualifiedFrameTime \<Rightarrow> FFrameRate \<Rightarrow> FFrameTime) \<Rightarrow> UMovieSceneSubTrack \<Rightarrow>
     UMovieSceneSequence \<Rightarrow> HostCall list" where
  "AddSequenceToSubtrack Convert SubTrack Sequence =
     (let TickResolution = GetTickResolution (GetMovieScene Sequence);
          SequenceRange = FFrameTime_of (DiscreteSize (GetPlaybackRange (GetMovieScene Sequence)));
          InnerDuration = \<lparr>Time = SequenceRange, Rate = TickResolution\<rparr>;
          OuterFrameRate = GetTickResolution (GetTypedOuter SubTrack);
          OuterDuration = Value (FrameNumber (Convert InnerDuration OuterFrameRate))
      in [AddSequenceOnRow SubTrack Sequence (FFrameNumber_of 0) OuterDuration INDEX_NONE])"

text \<open>
  \<open>OpenFileDialog\<close>. The desktop platform is a pointer; its \<open>OpenFileDialog\<close> takes the
  array of file names by reference and returns whether the user chose a file together
  with the array as it leaves it.
\<close>

type_synonym IDesktopPlatform =
  "nat option \<Rightarrow> string \<Rightarrow> string \<Rightarrow> string \<Rightarrow> string \<Rightarrow> 32 word \<Rightarrow> string list
     \<Rightarrow> bool \<times> string list"

definition OpenFileDialog ::
  "IDesktopPlatform option \<Rightarrow> string \<Rightarrow> string \<Rightarrow> string list \<times> HostCall list" where
  "OpenFileDialog desktopPlatform DialogTitle FileTypes =
     (let outFileNames = []
      in case desktopPlatform of
           Some platform \<Rightarrow>
             (snd (platform None DialogTitle '''' '''' FileTypes 0 outFileNames),
              [IDesktopPlatform_OpenFileDialog None DialogTitle '''' '''' FileTypes 0
                 outFileNames])
         | None \<Rightarrow> (outFileNames, []))"

text \<open>
  Modelled from the spec: the platform's file dialog, by what the user does in it. When
  the user cancels it returns false and leaves the array as it received it; when the user
  chooses files it returns true and appends them ("empty sequence if the platform dialog
  service is unavailable or the user cancels").
\<close>

datatype DialogOutcome = Cancelled | Chosen "string list"

definition PlatformDialog :: "DialogOutcome \<Rightarrow> IDesktopPlatform" where
  "PlatformDialog outcome ParentWindowHandle Title DefaultPath DefaultFile Types Flags
     OutFilenames =
     (case outcome of
        Cancelled \<Rightarrow> (False, OutFilenames)
      | Chosen files \<Rightarrow> (True, OutFilenames @ files))"

text \<open>
  \<open>SyncBrowserToAssets\<close>. The loop appends the name of each path to \<open>pathNames\<close>.
  \<open>GetAssets\<close> is the asset registry's query: it takes the array of records by reference
  and the function here returns the array as the registry leaves it.
\<close>

primrec Paths_loop :: "string list \<Rightarrow> FName list \<Rightarrow> FName list" where
  "Paths_loop [] pathNames = pathNames"
| "Paths_loop (path # rest) pathNames = Paths_loop rest (pathNames @ [FName path])"

definition SyncBrowserToAssets ::
  "(FARFilter \<Rightarrow> FAssetData list \<Rightarrow> FAssetData list) \<Rightarrow> string list \<Rightarrow> HostCall list" where
  "SyncBrowserToAssets GetAssets Paths =
     (let pathNames = Paths_loop Paths [];
          AssetFilter = \<lparr>PackageNames = []\<rparr>;
          AssetFilter = AssetFilter\<lparr>PackageNames := pathNames\<rparr>;
          assetData = [];
          assetData' = GetAssets AssetFilter assetData
      in [LoadModuleChecked ''ContentBrowser'', LoadModuleChecked ''AssetRegistry'',
          IAssetRegistry_GetAssets AssetFilter assetData,
          ContentBrowser_SyncBrowserToAssets assetData'])"

text \<open>
  \<open>CreateSequence\<close>. The call through \<open>bridge\<close> reads the object \<open>bridge\<close> points to;
  through a null pointer it is an error, and nothing is dispatched.
\<close>

definition CreateSequence ::
  "UClass list \<Rightarrow> string \<Rightarrow> string list \<Rightarrow> (string \<rightharpoonup> string) \<Rightarrow> error + HostCall list" where
  "CreateSequence DerivedClasses ShotID Characters TemplateKwargs =
     (let bridge = Get DerivedClasses
      in case bridge of
           None \<Rightarrow> Inl NullPointerDereference
         | Some obj \<Rightarrow>
             Inr [ShotBrowserUtility_CreateSequence obj ShotID Characters TemplateKwargs])"

text \<open>What a host call inserts on a sub-track: the duration, read as a signed number.\<close>

fun InsertedDuration :: "HostCall \<Rightarrow> int option" where
  "InsertedDuration (AddSequenceOnRow track sequence start duration row) = Some (sint duration)"
| "InsertedDuration call = None"

subsection \<open>The quantities of the time conversion\<close>

text \<open>
  The length \<open>D\<close> of a sequence's playback range, in ticks of its own resolution: the
  number of frame numbers from the lower bound (included) to the upper bound (not
  included), as an integer with no width.
\<close>

definition RangeLength :: "TRange \<Rightarrow> int" where
  "RangeLength r = sint (Value (UpperBoundValue r)) - sint (Value (LowerBoundValue r))"

definition PlaybackLength :: "UMovieSceneSequence \<Rightarrow> int" where
  "PlaybackLength Sequence = RangeLength (GetPlaybackRange (GetMovieScene Sequence))"

text \<open>
  The converted time \<open>D * R2 / R1\<close>: the playback length of the sequence, at the
  sequence's tick resolution \<open>R1\<close>, in ticks of the resolution \<open>R2\<close> of the sub-track's
  movie scene.
\<close>

definition ConvertedTime :: "UMovieSceneSubTrack \<Rightarrow> UMovieSceneSequence \<Rightarrow> rat" where
  "ConvertedTime SubTrack Sequence =
     of_int (PlaybackLength Sequence) * GetTickResolution (GetTypedOuter SubTrack)
       / GetTickResolution (GetMovieScene Sequence)"

text \<open>Truncation toward zero: down for a time that is not negative, up for a negative one.\<close>

definition TruncateTowardZero :: "rat \<Rightarrow> int" where
  "TruncateTowardZero x = (if 0 \<le> x then \<lfloor>x\<rfloor> else \<lceil>x\<rceil>)"

text \<open>
  A child sequence whose playback range is \<open>[lower, upper)\<close> at tick resolution \<open>R1\<close>
  (\<open>SequenceOf D R1\<close> has the range \<open>[0, D)\<close>), and a sub-track of a movie scene with tick
  resolution \<open>R2\<close>.
\<close>

definition SequenceBetween :: "int32 \<Rightarrow> int32 \<Rightarrow> FFrameRate \<Rightarrow> UMovieSceneSequence" where
  "SequenceBetween lower upper R1 =
     \<lparr>SequenceObjectName = ''Child'',
      GetMovieScene = \<lparr>GetTickResolution = R1,
        GetPlaybackRange =
          \<lparr>LowerBoundValue = FFrameNumber_of lower, UpperBoundValue = FFrameNumber_of upper\<rparr>\<rparr>\<rparr>"

definition SequenceOf :: "int32 \<Rightarrow> FFrameRate \<Rightarrow> UMovieSceneSequence" where
  "SequenceOf D R1 = SequenceBetween 0 D R1"

definition SubTrackAt :: "FFrameRate \<Rightarrow> UMovieSceneSubTrack" where
  "SubTrackAt R2 =
     \<lparr>TrackObjectName = ''Shots'',
      GetTypedOuter = \<lparr>GetTickResolution = R2,
        GetPlaybackRange =
          \<lparr>LowerBoundValue = FFrameNumber_of 0, UpperBoundValue = FFrameNumber_of 0\<rparr>\<rparr>\<rparr>"

section \<open>The extension point\<close>

lemma Cast_default_object:
  "c \<in> set DerivedClasses \<Longrightarrow>
   Cast_UShotBrowserUtility DerivedClasses (GetDefaultObject c) = Some (ClassDefaultObject c)"
  by (simp add: Cast_UShotBrowserUtility_def GetDefaultObject_def)

lemma Get_Nil: "Get [] = None"
  by (simp add: Get_def)

lemma Get_snoc: "Get (cs @ [c]) = Some (ClassDefaultObject c)"
  by (simp add: Get_def Cast_default_object)

text \<open>
  C2. Whatever the list of loaded subclasses is, \<open>Get\<close> returns the null reference when
  the list is empty and the default object of the list's last class otherwise. The result
  is a function of the list alone, so with the list fixed every call returns the same.
\<close>

theorem Get_null_or_last_default_object:
  "Get [] = None \<and>
   Get DerivedClasses =
     (if DerivedClasses = [] then None else Some (GetDefaultObject (last DerivedClasses)))"
proof (cases DerivedClasses rule: rev_cases)
  case Nil
  then show ?thesis by (simp add: Get_Nil)
next
  case (snoc cs c)
  then show ?thesis by (simp add: Get_Nil Get_snoc GetDefaultObject_def)
qed

text \<open>
  C3. With no subclass registered \<open>Get\<close> returns the null reference, and \<open>CreateSequence\<close>
  calls through it without a check: the call is a null-pointer dereference, not a no-op.
\<close>

theorem CreateSequence_no_implementation:
  "CreateSequence [] ShotID Characters TemplateKwargs = Inl NullPointerDereference"
  by (simp add: CreateSequence_def Get_Nil)

text \<open>
  C10. With at least one subclass registered, \<open>Get\<close> returns the class default object of
  the last class, never an instance created for the call, and \<open>CreateSequence\<close>
  dispatches to that object, with its three arguments unchanged.
\<close>

theorem Get_shared_default_object:
  "Get (cs @ [c]) = Some (ClassDefaultObject c) \<and>
   Get (cs @ [c]) \<noteq> Some (Instance c' n) \<and>
   GetDefaultObject c = ClassDefaultObject c \<and>
   CreateSequence (cs @ [c]) ShotID Characters TemplateKwargs =
     Inr [ShotBrowserUtility_CreateSequence (ClassDefaultObject c) ShotID Characters
            TemplateKwargs]"
  by (simp add: Get_snoc CreateSequence_def GetDefaultObject_def)

section \<open>The reimport facade\<close>

text \<open>
  C8. \<open>Reimport\<close> makes one call to the reimport manager. Its arguments are the asset,
  \<open>false\<close>, \<open>true\<close>, the empty string, no handler, the slot index, \<open>false\<close> and \<open>true\<close>:
  only the asset and the index come from the caller. It returns the manager's answer to
  that call, whatever the answer is.
\<close>

theorem Reimport_fixed_arguments:
  "snd (Reimport Manager_Reimport Obj SourceFileIndex) =
     [FReimportManager_Reimport Obj False True '''' None SourceFileIndex False True] \<and>
   fst (Reimport Manager_Reimport Obj SourceFileIndex) =
     Manager_Reimport Obj False True '''' None SourceFileIndex False True \<and>
   fst (Reimport (\<lambda>obj ask notify file handler index force automated. answer) Obj
          SourceFileIndex) = answer"
  by (simp add: Reimport_def)

text \<open>
  C9. \<open>UpdateReimportPath\<close> makes one call to the reimport manager with the asset, the
  file name and the slot index it was given, for every index: a negative one such as
  \<open>-1\<close> and the largest \<open>int32\<close> are forwarded like any other.
\<close>

theorem UpdateReimportPath_forwards:
  "UpdateReimportPath Obj Filename SourceFileIndex =
     [FReimportManager_UpdateReimportPath Obj Filename SourceFileIndex] \<and>
   UpdateReimportPath Obj Filename (- 1) =
     [FReimportManager_UpdateReimportPath Obj Filename (- 1)] \<and>
   UpdateReimportPath Obj Filename 2147483647 =
     [FReimportManager_UpdateReimportPath Obj Filename 2147483647]"
  by (simp add: UpdateReimportPath_def)

section \<open>The dialog facades\<close>

text \<open>
  C4. Whatever the title and whatever the prompt answers, \<open>DisplaySequencerActionsDialog\<close>
  returns true exactly when the answer is \<open>Ok\<close>: true for \<open>Ok\<close>, false for \<open>Cancel\<close>.
  It opens one prompt, of type \<open>OkCancel\<close>, whose message is the fixed pattern followed by
  the title.
\<close>

theorem DisplaySequencerActionsDialog_true_iff_Ok:
  "fst (DisplaySequencerActionsDialog (\<lambda>type message title. Response) SequenceName) =
     (Response = Ok) \<and>
   fst (DisplaySequencerActionsDialog (\<lambda>type message title. Ok) SequenceName) = True \<and>
   fst (DisplaySequencerActionsDialog (\<lambda>type message title. Cancel) SequenceName) = False \<and>
   fst (DisplaySequencerActionsDialog Respond SequenceName) =
     (Respond OkCancel
        (''The following actions will be executed to assemble the Unreal sequence: ''
           @ SequenceName)
        ''UnrealWriter Sequence Assembly'' = Ok) \<and>
   snd (DisplaySequencerActionsDialog Respond SequenceName) =
     [FMessageDialog_Open OkCancel
        (''The following actions will be executed to assemble the Unreal sequence: ''
           @ SequenceName)
        ''UnrealWriter Sequence Assembly'']"
  by (simp add: DisplaySequencerActionsDialog_def Let_def)

lemma OpenFileDialog_chosen:
  "OpenFileDialog (Some (PlatformDialog (Chosen files))) DialogTitle FileTypes =
     (files, [IDesktopPlatform_OpenFileDialog None DialogTitle '''' '''' FileTypes 0 []])"
  by (simp add: OpenFileDialog_def PlatformDialog_def)

text \<open>
  C5. Without a desktop platform (a null pointer), \<open>OpenFileDialog\<close> returns the empty
  sequence and calls no dialog, whatever the title and the filter; with a platform whose
  user cancels the dialog, it returns the empty sequence as well.
\<close>

theorem OpenFileDialog_unavailable_or_cancelled:
  "OpenFileDialog None DialogTitle FileTypes = ([], []) \<and>
   fst (OpenFileDialog (Some (PlatformDialog Cancelled)) DialogTitle FileTypes) = []"
  by (simp add: OpenFileDialog_def PlatformDialog_def)

section \<open>The asset browser facade\<close>

lemma Paths_loop_map: "Paths_loop Paths pathNames = pathNames @ map FName Paths"
  by (induction Paths arbitrary: pathNames) simp_all

text \<open>
  C6. For every sequence of paths, \<open>SyncBrowserToAssets\<close> queries the asset registry with
  a filter whose package names are the names of the paths, one per path and in the paths'
  order (so the same multiset, with nothing added or left out), and asks the content
  browser to select exactly the records the registry returned for that filter.
\<close>

theorem SyncBrowserToAssets_filter_and_selection:
  "SyncBrowserToAssets GetAssets Paths =
     [LoadModuleChecked ''ContentBrowser'', LoadModuleChecked ''AssetRegistry'',
      IAssetRegistry_GetAssets \<lparr>PackageNames = map FName Paths\<rparr> [],
      ContentBrowser_SyncBrowserToAssets (GetAssets \<lparr>PackageNames = map FName Paths\<rparr> [])] \<and>
   mset (map FName Paths) = image_mset FName (mset Paths) \<and>
   length (map FName Paths) = length Paths \<and>
   SyncBrowserToAssets GetAssets [''/Game/A'', ''/Game/B''] =
     [LoadModuleChecked ''ContentBrowser'', LoadModuleChecked ''AssetRegistry'',
      IAssetRegistry_GetAssets \<lparr>PackageNames = [FName ''/Game/A'', FName ''/Game/B'']\<rparr> [],
      ContentBrowser_SyncBrowserToAssets
        (GetAssets \<lparr>PackageNames = [FName ''/Game/A'', FName ''/Game/B'']\<rparr> [])]"
  by (simp add: SyncBrowserToAssets_def Paths_loop_map Let_def)

section \<open>The sequence track facade\<close>

text \<open>
  C7. For every sub-track and sequence, and every conversion the engine supplies,
  \<open>AddSequenceToSubtrack\<close> makes one insertion: of that sequence on that sub-track, at
  frame number 0, on row \<open>INDEX_NONE\<close> (\<open>-1\<close>: the host chooses the row), with the
  frame number of the sequence's playback length converted from the sequence's tick
  resolution to the tick resolution of the sub-track's movie scene as its duration.
\<close>

theorem AddSequenceToSubtrack_inserts_at_zero:
  "AddSequenceToSubtrack Convert SubTrack Sequence =
     [AddSequenceOnRow SubTrack Sequence \<lparr>Value = 0\<rparr>
        (Value (FrameNumber
           (Convert
              \<lparr>Time = \<lparr>FrameNumber =
                          \<lparr>Value = DiscreteSize (GetPlaybackRange (GetMovieScene Sequence))\<rparr>,
                        SubFrame = 0\<rparr>,
               Rate = GetTickResolution (GetMovieScene Sequence)\<rparr>
              (GetTickResolution (GetTypedOuter SubTrack)))))
        INDEX_NONE] \<and>
   sint INDEX_NONE = - 1"
  by (simp add: AddSequenceToSubtrack_def FFrameTime_of_def FFrameNumber_of_def INDEX_NONE_def)

subsection \<open>The converted duration\<close>

lemma sint_int32_of_int: "InInt32 k \<Longrightarrow> sint (word_of_int k :: int32) = k"
  by (simp add: InInt32_def sint_sbintrunc' signed_take_bit_int_eq_self)

lemma sint_DiscreteSize: "InInt32 (RangeLength r) \<Longrightarrow> sint (DiscreteSize r) = RangeLength r"
  by (simp add: InInt32_def RangeLength_def DiscreteSize_def sint_word_ariths
      signed_take_bit_int_eq_self)

lemma ConvertTo_FrameNumber:
  "InInt32 \<lfloor>of_int (sint D) * R2 / R1\<rfloor> \<Longrightarrow>
   sint (Value (FrameNumber (ConvertTo Unrepresentable \<lparr>Time = FFrameTime_of D, Rate = R1\<rparr> R2))) =
     \<lfloor>of_int (sint D) * R2 / R1\<rfloor>"
  by (simp add: ConvertTo_def FrameTime_AsDecimal_def FFrameTime_of_def FFrameNumber_of_def
      Let_def sint_int32_of_int)

lemma InsertedDuration_AddSequenceToSubtrack:
  "map InsertedDuration (AddSequenceToSubtrack Convert SubTrack Sequence) =
     [Some (sint (Value (FrameNumber
        (Convert
           \<lparr>Time = FFrameTime_of (DiscreteSize (GetPlaybackRange (GetMovieScene Sequence))),
            Rate = GetTickResolution (GetMovieScene Sequence)\<rparr>
           (GetTickResolution (GetTypedOuter SubTrack))))))]"
  by (simp add: AddSequenceToSubtrack_def)

text \<open>Whatever the engine's conversion is, the inserted duration is a signed 32-bit number.\<close>

lemma InsertedDuration_int32:
  assumes "2 ^ 31 \<le> k"
  shows "map InsertedDuration (AddSequenceToSubtrack Convert SubTrack Sequence) \<noteq> [Some k]"
proof -
  have below: "sint w < 2 ^ 31" for w :: int32
    using sint_lt [of w] by simp
  have "sint w \<noteq> k" for w :: int32
    using below [of w] assms by auto
  then show ?thesis
    by (simp add: InsertedDuration_AddSequenceToSubtrack)
qed

lemma InsertedDuration_floor:
  assumes "InInt32 (PlaybackLength Sequence)"
    and "InInt32 \<lfloor>ConvertedTime SubTrack Sequence\<rfloor>"
  shows "map InsertedDuration (AddSequenceToSubtrack (ConvertTo Unrepresentable) SubTrack Sequence)
    = [Some \<lfloor>ConvertedTime SubTrack Sequence\<rfloor>]"
proof -
  have D: "sint (DiscreteSize (GetPlaybackRange (GetMovieScene Sequence))) =
      PlaybackLength Sequence"
    using assms(1) by (simp add: PlaybackLength_def sint_DiscreteSize)
  with assms(2) show ?thesis
    by (simp add: InsertedDuration_AddSequenceToSubtrack ConvertTo_FrameNumber
        ConvertedTime_def)
qed

lemma floor_rat_numeral_divide:
  "\<lfloor>numeral a / numeral b :: rat\<rfloor> = numeral a div numeral b"
  using floor_divide_of_int_eq [of "numeral a" "numeral b", where ?'a = rat] by simp

lemma floor_rat_minus_numeral_divide:
  "\<lfloor>- (numeral a / numeral b) :: rat\<rfloor> = - numeral a div numeral b"
  using floor_divide_of_int_eq [of "- numeral a" "numeral b", where ?'a = rat] by simp

lemmas example_objects = SubTrackAt_def SequenceOf_def SequenceBetween_def FFrameNumber_of_def
  PlaybackLength_def RangeLength_def ConvertedTime_def InInt32_def

text \<open>
  C1, amended. For a child sequence with playback length \<open>D\<close> ticks at tick resolution
  \<open>R1\<close> and a parent track at tick resolution \<open>R2\<close>, whenever \<open>D\<close> and
  \<open>floor (D * R2 / R1)\<close> are signed 32-bit numbers, the inserted duration is
  \<open>floor (D * R2 / R1)\<close>, whatever the engine stores for a frame number that is not one:
  the converted time is not rounded. Where the converted time is not negative, that is
  its truncation toward zero. \<open>D = 100\<close>, \<open>R1 = 24\<close>, \<open>R2 = 48\<close> gives 200; \<open>D = 100\<close>,
  \<open>R1 = 30\<close>, \<open>R2 = 24\<close> gives 80; \<open>D = 1\<close>, \<open>R1 = 3\<close>, \<open>R2 = 2\<close> gives 0.
\<close>

theorem AddSequenceToSubtrack_duration_floor:
  "(InInt32 (PlaybackLength Sequence) \<and> InInt32 \<lfloor>ConvertedTime SubTrack Sequence\<rfloor> \<longrightarrow>
    map InsertedDuration (AddSequenceToSubtrack (ConvertTo Unrepresentable) SubTrack Sequence) =
      [Some \<lfloor>ConvertedTime SubTrack Sequence\<rfloor>]) \<and>
   (InInt32 (PlaybackLength Sequence) \<and> InInt32 \<lfloor>ConvertedTime SubTrack Sequence\<rfloor> \<and>
    0 \<le> ConvertedTime SubTrack Sequence \<longrightarrow>
    map InsertedDuration (AddSequenceToSubtrack (ConvertTo Unrepresentable) SubTrack Sequence) =
      [Some (TruncateTowardZero (ConvertedTime SubTrack Sequence))]) \<and>
   map InsertedDuration
     (AddSequenceToSubtrack (ConvertTo Unrepresentable) (SubTrackAt 48) (SequenceOf 100 24)) =
     [Some 200] \<and>
   map InsertedDuration
     (AddSequenceToSubtrack (ConvertTo Unrepresentable) (SubTrackAt 24) (SequenceOf 100 30)) =
     [Some 80] \<and>
   map InsertedDuration
     (AddSequenceToSubtrack (ConvertTo Unrepresentable) (SubTrackAt 2) (SequenceOf 1 3)) =
     [Some 0]"
proof -
  have e1: "map InsertedDuration
      (AddSequenceToSubtrack (ConvertTo Unrepresentable) (SubTrackAt 48) (SequenceOf 100 24)) =
      [Some 200]"
    using InsertedDuration_floor [of "SequenceOf 100 24" "SubTrackAt 48" Unrepresentable]
    by (simp add: example_objects)
  have e2: "map InsertedDuration
      (AddSequenceToSubtrack (ConvertTo Unrepresentable) (SubTrackAt 24) (SequenceOf 100 30)) =
      [Some 80]"
    using InsertedDuration_floor [of "SequenceOf 100 30" "SubTrackAt 24" Unrepresentable]
    by (simp add: example_objects)
  have e3: "map InsertedDuration
      (AddSequenceToSubtrack (ConvertTo Unrepresentable) (SubTrackAt 2) (SequenceOf 1 3)) =
      [Some 0]"
    using InsertedDuration_floor [of "SequenceOf 1 3" "SubTrackAt 2" Unrepresentable]
    by (simp add: example_objects floor_rat_numeral_divide)
  show ?thesis
    by (simp only: e1 e2 e3) (simp add: InsertedDuration_floor TruncateTowardZero_def)
qed

text \<open>
  The theorem at \<open>D = 7\<close>, \<open>R1 = 3\<close>, \<open>R2 = 2\<close>, with an engine that keeps the low 32 bits
  of a frame number: the converted time is \<open>14 / 3\<close> and the inserted duration is 4.
\<close>

theorem AddSequenceToSubtrack_duration_floor_witness:
  "InInt32 (PlaybackLength (SequenceOf 7 3)) \<and>
   InInt32 \<lfloor>ConvertedTime (SubTrackAt 2) (SequenceOf 7 3)\<rfloor> \<and>
   0 \<le> ConvertedTime (SubTrackAt 2) (SequenceOf 7 3) \<and>
   PlaybackLength (SequenceOf 7 3) = 7 \<and>
   \<lfloor>ConvertedTime (SubTrackAt 2) (SequenceOf 7 3)\<rfloor> = 4 \<and>
   TruncateTowardZero (ConvertedTime (SubTrackAt 2) (SequenceOf 7 3)) = 4 \<and>
   map InsertedDuration
     (AddSequenceToSubtrack (ConvertTo word_of_int) (SubTrackAt 2) (SequenceOf 7 3)) = [Some 4]"
  using AddSequenceToSubtrack_duration_floor [of "SequenceOf 7 3" "SubTrackAt 2" word_of_int]
  by (simp add: example_objects TruncateTowardZero_def floor_rat_numeral_divide)

text \<open>
  C1 as stated fails at three inputs. A playback length of \<open>2^30\<close> ticks at 24000 ticks
  per second is \<open>2684354560\<close> ticks at 60000 ticks per second, which no 32-bit duration
  is. A playback range from \<open>-2^30\<close> to \<open>2^30 + 1\<close> is \<open>2147483649\<close> ticks long, which the
  32-bit frame time read from it is not: at 60000 ticks per second it is \<open>858993459\<close> ticks
  at 24000 ticks per second, and that is not the inserted duration. A playback length of
  \<open>-1\<close> ticks at 3 ticks per second is \<open>-2/3\<close> ticks at 2 ticks per second: the inserted
  duration is the floor \<open>-1\<close>, and the truncation toward zero is 0.
\<close>

theorem AddSequenceToSubtrack_duration_overflow:
  "PlaybackLength (SequenceOf 1073741824 24000) = 1073741824 \<and>
   \<lfloor>ConvertedTime (SubTrackAt 60000) (SequenceOf 1073741824 24000)\<rfloor> = 2684354560 \<and>
   map InsertedDuration
     (AddSequenceToSubtrack (ConvertTo word_of_int) (SubTrackAt 60000)
        (SequenceOf 1073741824 24000)) \<noteq>
     [Some \<lfloor>ConvertedTime (SubTrackAt 60000) (SequenceOf 1073741824 24000)\<rfloor>] \<and>
   PlaybackLength (SequenceBetween (- 1073741824) 1073741825 60000) = 2147483649 \<and>
   \<lfloor>ConvertedTime (SubTrackAt 24000) (SequenceBetween (- 1073741824) 1073741825 60000)\<rfloor> =
     858993459 \<and>
   map InsertedDuration
     (AddSequenceToSubtrack (ConvertTo word_of_int) (SubTrackAt 24000)
        (SequenceBetween (- 1073741824) 1073741825 60000)) \<noteq>
     [Some \<lfloor>ConvertedTime (SubTrackAt 24000)
              (SequenceBetween (- 1073741824) 1073741825 60000)\<rfloor>] \<and>
   PlaybackLength (SequenceBetween 0 (- 1) 3) = - 1 \<and>
   map InsertedDuration
     (AddSequenceToSubtrack (ConvertTo word_of_int) (SubTrackAt 2) (SequenceBetween 0 (- 1) 3)) =
     [Some (- 1)] \<and>
   TruncateTowardZero (ConvertedTime (SubTrackAt 2) (SequenceBetween 0 (- 1) 3)) = 0"
proof -
  have length1: "PlaybackLength (SequenceOf 1073741824 24000) = 1073741824"
    by (simp add: example_objects)
  have time1: "\<lfloor>ConvertedTime (SubTrackAt 60000) (SequenceOf 1073741824 24000)\<rfloor> = 2684354560"
    by (simp add: example_objects)
  have duration1: "map InsertedDuration
      (AddSequenceToSubtrack (ConvertTo word_of_int) (SubTrackAt 60000)
         (SequenceOf 1073741824 24000)) \<noteq>
      [Some \<lfloor>ConvertedTime (SubTrackAt 60000) (SequenceOf 1073741824 24000)\<rfloor>]"
    unfolding time1 by (rule InsertedDuration_int32) simp
  have length2: "PlaybackLength (SequenceBetween (- 1073741824) 1073741825 60000) = 2147483649"
    by (simp add: example_objects)
  have time2: "\<lfloor>ConvertedTime (SubTrackAt 24000)
      (SequenceBetween (- 1073741824) 1073741825 60000)\<rfloor> = 858993459"
    by (simp add: example_objects floor_rat_numeral_divide)
  have duration2: "map InsertedDuration
      (AddSequenceToSubtrack (ConvertTo word_of_int) (SubTrackAt 24000)
         (SequenceBetween (- 1073741824) 1073741825 60000)) \<noteq>
      [Some \<lfloor>ConvertedTime (SubTrackAt 24000)
               (SequenceBetween (- 1073741824) 1073741825 60000)\<rfloor>]"
    unfolding time2
    by (simp add: InsertedDuration_AddSequenceToSubtrack example_objects DiscreteSize_def
        ConvertTo_def FrameTime_AsDecimal_def FFrameTime_of_def Let_def
        floor_rat_minus_numeral_divide)
  have length3: "PlaybackLength (SequenceBetween 0 (- 1) 3) = - 1"
    by (simp add: example_objects)
  have duration3: "map InsertedDuration
      (AddSequenceToSubtrack (ConvertTo word_of_int) (SubTrackAt 2)
         (SequenceBetween 0 (- 1) 3)) = [Some (- 1)]"
    using InsertedDuration_floor [of "SequenceBetween 0 (- 1) 3" "SubTrackAt 2" word_of_int]
    by (simp add: example_objects floor_rat_minus_numeral_divide)
  have truncation3:
    "TruncateTowardZero (ConvertedTime (SubTrackAt 2) (SequenceBetween 0 (- 1) 3)) = 0"
    by (simp add: example_objects TruncateTowardZero_def ceiling_def floor_rat_numeral_divide)
  from length1 time1 duration1 length2 time2 duration2 length3 duration3 truncation3
  show ?thesis by blast
qed

end
